theory Spec2Isabelle
  imports Main
begin

section \<open>Data model of \<open>main_desktop.py\<close>\<close>

text \<open>
  A PIL font handle. \<open>getname()\<close> returns the pair (family, style); the size is a field of
  the handle that \<open>getname()\<close> does not report.
\<close>

record FreeTypeFont =
  family :: string
  style :: string
  size :: nat

text \<open>
  A mode-\<open>L\<close> image: its width, its height and the pixel access object returned by
  \<open>load()\<close>, read as \<open>pixels[px, py]\<close>.
\<close>

record bitmap =
  bwidth :: nat
  bheight :: nat
  pixels :: "nat \<Rightarrow> nat \<Rightarrow> nat"

text \<open>
  The font collaborator (\<open>font.getbbox\<close>, \<open>Image.new\<close>, \<open>ImageDraw.text\<close>) is a parameter:
  the bitmap that PIL produces for a text in a font. \<open>Image.new\<close> refuses a negative
  size, so the dimensions of a bitmap that exists are natural numbers.
\<close>

type_synonym rasteriser = "FreeTypeFont \<Rightarrow> string \<Rightarrow> bitmap"

text \<open>
  One entry of \<open>BitmapTextCache._cache\<close>. The entry holds a reference to the bitmap object;
  references are indices into the list of the bitmap objects allocated so far.
\<close>

record cached =
  bitmap_ref :: nat
  txt_width :: nat
  txt_height :: nat

record BitmapTextCache =
  cache :: "string \<rightharpoonup> cached"
  objects :: "bitmap list"

text \<open>
  A departure is a dictionary. The two time fields are read without a type check except
  for \<open>isinstance(expected, str)\<close>, so they are values that are a string or not; the
  \<open>platform\<close> key may be absent.
\<close>

datatype pyval = PyStr string | PyNone

fun py_str :: "pyval \<Rightarrow> string" where
  "py_str (PyStr s) = s"
| "py_str PyNone = ''None''"

record departure =
  aimed_departure_time :: pyval
  expected_departure_time :: pyval
  destination_name :: string
  platform :: "string option"
  calling_at_list :: string

record board_config =
  firstDepartureBold :: bool
  showDepartureNumbers :: bool
  operatingHours :: "string option"
  screen1Platform :: "string option"
  outOfHoursName :: "string option"

text \<open>The fields of a \<open>DepartureBoard\<close> object that the rendering engine reads or writes.\<close>

record board =
  config :: board_config
  font :: FreeTypeFont
  font_bold :: FreeTypeFont
  font_bold_tall :: FreeTypeFont
  font_bold_large :: FreeTypeFont
  bitmap_cache :: BitmapTextCache
  departure_data :: "departure list option"
  station_name :: string
  pixels_left :: int
  pixels_up :: int
  has_elevated :: bool
  pause_count :: int
  station_render_count :: int
  window_title :: string

text \<open>
  The frame buffer is black when created and \<open>draw.point\<close> only ever paints yellow, so a
  frame is the set of the points on which \<open>draw.point\<close> has been called.
\<close>

type_synonym image = "(int \<times> int) set"

section \<open>The scrolling-text state machine\<close>

text \<open>
  The state update at the end of \<open>_draw_scrolling_text\<close> (lines 269--275 and 279--285),
  for a calling-at bitmap of width \<open>w\<close> and height \<open>h\<close>.
\<close>

definition scroll_advance :: "int \<Rightarrow> int \<Rightarrow> board \<Rightarrow> board" where
  "scroll_advance w h b =
     (if has_elevated b then
        (if - pixels_left b > w \<and> pause_count b < 8 then
           b\<lparr>pause_count := pause_count b + 1, pixels_left := 0, has_elevated := False\<rparr>
         else
           b\<lparr>pause_count := 0, pixels_left := pixels_left b - 1\<rparr>)
      else
        (if pixels_up b = h then
           (let b1 = b\<lparr>pause_count := pause_count b + 1\<rparr> in
            if pause_count b1 > 100 then b1\<lparr>has_elevated := True, pixels_up := 0\<rparr> else b1)
         else
           b\<lparr>pixels_up := pixels_up b + 1\<rparr>))"

text \<open>The animation fields as \<open>__init__\<close> and \<open>_refresh_data\<close> set them.\<close>

definition animation_initial :: "board \<Rightarrow> bool" where
  "animation_initial b \<longleftrightarrow>
     pixels_left b = 1 \<and> pixels_up b = 0 \<and> \<not> has_elevated b \<and> pause_count b = 0"

text \<open>The fields that \<open>__init__\<close> sets, for a configuration and the four loaded fonts.\<close>

definition init_board ::
  "board_config \<Rightarrow> FreeTypeFont \<Rightarrow> FreeTypeFont \<Rightarrow> FreeTypeFont \<Rightarrow> FreeTypeFont \<Rightarrow> board" where
  "init_board cfg f fb fbt fbl =
     \<lparr>config = cfg, font = f, font_bold = fb, font_bold_tall = fbt, font_bold_large = fbl,
      bitmap_cache = \<lparr>cache = Map.empty, objects = []\<rparr>,
      departure_data = None, station_name = [],
      pixels_left = 1, pixels_up = 0, has_elevated = False, pause_count = 0,
      station_render_count = 0, window_title = ''UK Train Departure Display''\<rparr>"

text \<open>
  Observer for the phase-cycle property: within the next \<open>n\<close> frames the animator is in
  the vertical-reveal phase with \<open>pause_count = 0\<close> and \<open>pixels_up = 0\<close>.
\<close>

fun returned_by :: "int \<Rightarrow> int \<Rightarrow> board \<Rightarrow> nat \<Rightarrow> bool" where
  "returned_by w h b 0 = False"
| "returned_by w h b (Suc n) =
     (let b' = scroll_advance w h b in
      (\<not> has_elevated b' \<and> pause_count b' = 0 \<and> pixels_up b' = 0) \<or> returned_by w h b' n)"

section \<open>The bitmap cache\<close>

text \<open>\<open>''.join(font.getname())\<close>\<close>

definition font_key :: "FreeTypeFont \<Rightarrow> string" where
  "font_key fnt = family fnt @ style fnt"

text \<open>
  \<open>BitmapTextCache.get_bitmap\<close>: returns \<open>(txt_width, txt_height, bitmap)\<close>, the bitmap as a
  reference, and the cache after the call. On a miss the new bitmap object is allocated
  at the next free reference.
\<close>

definition get_bitmap ::
  "rasteriser \<Rightarrow> BitmapTextCache \<Rightarrow> string \<Rightarrow> FreeTypeFont \<Rightarrow> (nat \<times> nat \<times> nat) \<times> BitmapTextCache" where
  "get_bitmap R c text fnt =
     (let key = text @ font_key fnt in
      case cache c key of
        Some e \<Rightarrow> ((txt_width e, txt_height e, bitmap_ref e), c)
      | None \<Rightarrow>
          (let bmp = R fnt text;
               r = length (objects c)
           in ((bwidth bmp, bheight bmp, r),
               c\<lparr>cache := (cache c)(key \<mapsto>
                     \<lparr>bitmap_ref = r, txt_width = bwidth bmp, txt_height = bheight bmp\<rparr>),
                 objects := objects c @ [bmp]\<rparr>)))"

text \<open>Every reference held by the cache points to an allocated bitmap object.\<close>

definition wf_cache :: "BitmapTextCache \<Rightarrow> bool" where
  "wf_cache c \<longleftrightarrow> (\<forall>k e. cache c k = Some e \<longrightarrow> bitmap_ref e < length (objects c))"

text \<open>A sequence of lookups, each a text and a font, run one after the other.\<close>

fun get_bitmaps ::
  "rasteriser \<Rightarrow> BitmapTextCache \<Rightarrow> (string \<times> FreeTypeFont) list \<Rightarrow> BitmapTextCache" where
  "get_bitmaps R c [] = c"
| "get_bitmaps R c ((text, fnt) # qs) = get_bitmaps R (snd (get_bitmap R c text fnt)) qs"

section \<open>Blit primitives\<close>

text \<open>\<open>_draw_bitmap\<close>: the two nested \<open>for\<close> statements over \<open>range(bitmap.height)\<close> and \<open>range(bitmap.width)\<close>.\<close>

definition draw_bitmap :: "image \<Rightarrow> int \<Rightarrow> int \<Rightarrow> bitmap \<Rightarrow> image" where
  "draw_bitmap draw x y bmp =
     fold (\<lambda>py d.
       fold (\<lambda>px d'.
         if pixels bmp px py > 0 then
           (if 0 \<le> x + int px \<and> x + int px < 256 \<and> 0 \<le> y + int py \<and> y + int py < 64
            then insert (x + int px, y + int py) d' else d')
         else d') [0..<bwidth bmp] d) [0..<bheight bmp] draw"

text \<open>\<open>_draw_bitmap_clipped\<close>\<close>

definition draw_bitmap_clipped :: "image \<Rightarrow> int \<Rightarrow> int \<Rightarrow> bitmap \<Rightarrow> int \<Rightarrow> int \<Rightarrow> image" where
  "draw_bitmap_clipped draw x y bmp clip_x_start clip_width =
     (let clip_x_end = clip_x_start + clip_width;
          clip_y_start = y;
          clip_y_end = y + 10
      in fold (\<lambda>py d.
           fold (\<lambda>px d'.
             if pixels bmp px py > 0 then
               (let screen_x = x + int px;
                    screen_y = y + int py
                in if clip_x_start \<le> screen_x \<and> screen_x < clip_x_end \<and>
                      clip_y_start \<le> screen_y \<and> screen_y < clip_y_end \<and>
                      0 \<le> screen_x \<and> screen_x < 256 \<and>
                      0 \<le> screen_y \<and> screen_y < 22
                   then insert (screen_x, screen_y) d' else d')
             else d') [0..<bwidth bmp] d) [0..<bheight bmp] draw)"

section \<open>Frame composition\<close>

text \<open>\<open>_draw_scrolling_text\<close>: look the text up, blit it clipped, advance the animation.\<close>

definition draw_scrolling_text ::
  "rasteriser \<Rightarrow> board \<Rightarrow> image \<Rightarrow> string \<Rightarrow> int \<Rightarrow> int \<Rightarrow> int \<Rightarrow> board \<times> image" where
  "draw_scrolling_text R b draw text x_offset y_pos max_width =
     (let ((w, h, r), c) = get_bitmap R (bitmap_cache b) text (font b);
          b1 = b\<lparr>bitmap_cache := c\<rparr>;
          bmp = objects c ! r
      in if has_elevated b1 then
           (let x_pos = x_offset + pixels_left b1 - 1
            in (scroll_advance (int w) (int h) b1,
                draw_bitmap_clipped draw x_pos y_pos bmp x_offset max_width))
         else
           (scroll_advance (int w) (int h) b1,
            draw_bitmap_clipped draw x_offset (y_pos + int h - pixels_up b1) bmp x_offset max_width))"

text \<open>\<open>_get_status_text\<close>\<close>

definition get_status_text :: "departure \<Rightarrow> string" where
  "get_status_text dep =
     (let expected = expected_departure_time dep;
          aimed = aimed_departure_time dep
      in if expected = PyStr ''On time'' then ''On time''
         else if expected = PyStr ''Cancelled'' then ''Cancelled''
         else if expected = PyStr ''Delayed'' then ''Delayed''
         else (case expected of
                 PyStr e \<Rightarrow> if expected \<noteq> aimed then ''Exp '' @ e else ''On time''
               | PyNone \<Rightarrow> ''On time''))"

text \<open>
  \<open>str.lower()\<close> on the letters A to Z. No character outside A to Z is lowered by Python
  to one of the letters b, u, s, so the comparison with \<open>"bus"\<close> is decided by these.
\<close>

definition lower_char :: "char \<Rightarrow> char" where
  "lower_char c =
     (if 65 \<le> (of_char c :: nat) \<and> (of_char c :: nat) \<le> 90 then char_of (of_char c + 32 :: nat) else c)"

definition lower :: "string \<Rightarrow> string" where
  "lower s = map lower_char s"

text \<open>\<open>_draw_departure_row\<close>\<close>

definition draw_departure_row ::
  "rasteriser \<Rightarrow> board \<Rightarrow> image \<Rightarrow> departure \<Rightarrow> int \<Rightarrow> FreeTypeFont \<Rightarrow> bool \<Rightarrow> board \<times> image" where
  "draw_departure_row R b draw dep y_pos fnt show_calling =
     (let time_str = py_str (aimed_departure_time dep);
          dest_str = destination_name dep;
          train_text =
            (if showDepartureNumbers (config b) \<and> y_pos = 0 then
               ''1st  '' @ time_str @ ''  '' @ dest_str
             else if showDepartureNumbers (config b) \<and> y_pos = 24 then
               ''2nd  '' @ time_str @ ''  '' @ dest_str
             else if showDepartureNumbers (config b) \<and> y_pos = 36 then
               ''3rd  '' @ time_str @ ''  '' @ dest_str
             else time_str @ ''  '' @ dest_str);
          ((w, h, r), c1) = get_bitmap R (bitmap_cache b) train_text fnt;
          draw1 = draw_bitmap draw 0 y_pos (objects c1 ! r);
          status_text = get_status_text dep;
          ((w_status, h_status, r_status), c2) = get_bitmap R c1 status_text (font b);
          draw2 = draw_bitmap draw1 (256 - int w_status) y_pos (objects c2 ! r_status);
          (c3, draw3) =
            (case platform dep of
               None \<Rightarrow> (c2, draw2)
             | Some p \<Rightarrow>
                 (let platform_text = (if lower p = ''bus'' then ''BUS'' else ''Plat '' @ p);
                      ((w_plat, h_plat, r_plat), c3) = get_bitmap R c2 platform_text (font b)
                  in (c3, draw_bitmap draw2 (256 - int w_status - int w_plat - 5) y_pos
                            (objects c3 ! r_plat))))
      in if show_calling then
           (let calling_text = ''Calling at: '';
                ((w_call, h_call, r_call), c4) = get_bitmap R c3 calling_text (font b);
                draw4 = draw_bitmap draw3 0 (y_pos + 12) (objects c4 ! r_call);
                stations = calling_at_list dep
            in draw_scrolling_text R (b\<lparr>bitmap_cache := c4\<rparr>) draw4 stations
                 (int w_call) (y_pos + 12) (256 - int w_call))
         else (b\<lparr>bitmap_cache := c3\<rparr>, draw3))"

text \<open>\<open>_draw_departures\<close>\<close>

definition draw_departures :: "rasteriser \<Rightarrow> board \<Rightarrow> image \<Rightarrow> board \<times> image" where
  "draw_departures R b draw =
     (let departures = (case departure_data b of None \<Rightarrow> [] | Some ds \<Rightarrow> ds)
      in if length departures = 0 then (b, draw)
         else
           (let first_font = (if firstDepartureBold (config b) then font_bold b else font b);
                (b1, draw1) = draw_departure_row R b draw (departures ! 0) 0 first_font True;
                (b2, draw2) =
                  (if length departures > 1
                   then draw_departure_row R b1 draw1 (departures ! 1) 24 (font b1) False
                   else (b1, draw1))
            in if length departures > 2
               then draw_departure_row R b2 draw2 (departures ! 2) 36 (font b2) False
               else (b2, draw2)))"

text \<open>\<open>_draw_no_trains\<close>\<close>

definition draw_no_trains :: "rasteriser \<Rightarrow> board \<Rightarrow> image \<Rightarrow> board \<times> image" where
  "draw_no_trains R b draw =
     (let station_text =
            (if station_name b \<noteq> [] then station_name b
             else (case outOfHoursName (config b) of None \<Rightarrow> [] | Some n \<Rightarrow> n));
          text1 = ''Welcome to'';
          ((w1, h1, r1), c1) = get_bitmap R (bitmap_cache b) text1 (font_bold b);
          draw1 = draw_bitmap draw ((256 - int w1) div 2) 5 (objects c1 ! r1);
          ((w2, h2, r2), c2) = get_bitmap R c1 station_text (font_bold b);
          draw2 = draw_bitmap draw1 ((256 - int w2) div 2) 17 (objects c2 ! r2);
          text3 = ''No trains scheduled'';
          ((w3, h3, r3), c3) = get_bitmap R c2 text3 (font b);
          draw3 = draw_bitmap draw2 ((256 - int w3) div 2) 35 (objects c3 ! r3)
      in (b\<lparr>bitmap_cache := c3\<rparr>, draw3))"

text \<open>
  \<open>_draw_time\<close>, for the hour, minute and second strings that the clock collaborator
  (\<open>datetime.now()\<close>) supplies.
\<close>

definition draw_time ::
  "rasteriser \<Rightarrow> board \<Rightarrow> image \<Rightarrow> string \<Rightarrow> string \<Rightarrow> string \<Rightarrow> board \<times> image" where
  "draw_time R b draw hour minute second =
     (let hm_text = hour @ '':'' @ minute;
          s_text = '':'' @ second;
          ((w1, h1, r1), c1) = get_bitmap R (bitmap_cache b) hm_text (font_bold_large b);
          ((w2, h2, r2), c2) = get_bitmap R c1 s_text (font_bold_tall b);
          total_width = int w1 + int w2;
          start_x = (256 - total_width) div 2;
          draw1 = draw_bitmap draw start_x 50 (objects c2 ! r1);
          draw2 = draw_bitmap draw1 (start_x + int w1) 55 (objects c2 ! r2)
      in (b\<lparr>bitmap_cache := c2\<rparr>, draw2))"

text \<open>
  \<open>render_frame\<close>, lines 116--133, after the refresh check: a fresh black buffer, the
  departure board or the placeholder, then the clock.
\<close>

definition render_frame :: "rasteriser \<Rightarrow> board \<Rightarrow> string \<Rightarrow> string \<Rightarrow> string \<Rightarrow> board \<times> image" where
  "render_frame R b hour minute second =
     (let draw = {};
          (b1, draw1) =
            (case departure_data b of
               None \<Rightarrow> draw_no_trains R b draw
             | Some ds \<Rightarrow>
                 if length ds = 0 then draw_no_trains R b draw else draw_departures R b draw)
      in draw_time R b1 draw1 hour minute second)"

section \<open>Data refresh\<close>

text \<open>\<open>str.split(sep)\<close> for a one-character separator.\<close>

fun split_str :: "char \<Rightarrow> string \<Rightarrow> string list" where
  "split_str sep [] = [[]]"
| "split_str sep (c # cs) =
     (if c = sep then [] # split_str sep cs
      else (case split_str sep cs of
              [] \<Rightarrow> [[c]]
            | x # xs \<Rightarrow> (c # x) # xs))"

text \<open>
  The collaborators of \<open>_refresh_data\<close> that are not part of this file: the built-in
  \<open>int()\<close> (\<open>None\<close> where it raises \<open>ValueError\<close>), \<open>open.isRun\<close> and the result of the
  call to \<open>trains.loadDeparturesForStation\<close>. Each may raise.
\<close>

datatype exn = ValueError | OtherError string

record collaborators =
  py_int :: "string \<Rightarrow> int option"
  isRun :: "int \<Rightarrow> int \<Rightarrow> exn + bool"
  loadDeparturesForStation :: "exn + (departure list option \<times> string \<times> string option)"

text \<open>How the body of the \<open>try\<close> statement ends.\<close>

datatype ending = Completed | OutOfHours | Raised exn

text \<open>
  The body of the \<open>try\<close> statement (lines 152--184): the board when the body ends and
  how it ended. Arguments are evaluated left to right, so \<open>int(hours[0])\<close> fails before
  \<open>int(hours[1])\<close> is tried, and both before \<open>isRun\<close> is called.
\<close>

definition refresh_try :: "collaborators \<Rightarrow> board \<Rightarrow> board \<times> ending" where
  "refresh_try env b =
     (let in_hours =
            (case operatingHours (config b) of
               None \<Rightarrow> Inr True
             | Some oh \<Rightarrow>
                 if oh = [] then Inr True
                 else
                   (let hours = split_str CHR ''-'' oh
                    in if length hours = 2 then
                         (case py_int env (hours ! 0) of
                            None \<Rightarrow> Inl ValueError
                          | Some h0 \<Rightarrow>
                              (case py_int env (hours ! 1) of
                                 None \<Rightarrow> Inl ValueError
                               | Some h1 \<Rightarrow> isRun env h0 h1))
                       else Inr True))
      in case in_hours of
           Inl e \<Rightarrow> (b, Raised e)
         | Inr False \<Rightarrow> (b\<lparr>departure_data := Some []\<rparr>, OutOfHours)
         | Inr True \<Rightarrow>
             (case loadDeparturesForStation env of
                Inl e \<Rightarrow> (b, Raised e)
              | Inr (departures, station, dest_station) \<Rightarrow>
                  (let b1 = b\<lparr>departure_data := departures, station_name := station,
                              window_title := station @
                                (case dest_station of
                                   None \<Rightarrow> []
                                 | Some d \<Rightarrow> if d = [] then [] else '' to '' @ d) @
                                '' - Departures''\<rparr>;
                       b2 = (case screen1Platform (config b1) of
                               None \<Rightarrow> b1
                             | Some p \<Rightarrow>
                                 if p = [] then b1
                                 else b1\<lparr>departure_data :=
                                        Some (filter (\<lambda>dep. platform dep = Some p)
                                               (case departure_data b1 of
                                                  None \<Rightarrow> []
                                                | Some ds \<Rightarrow> ds))\<rparr>)
                   in (b2\<lparr>pixels_left := 1, pixels_up := 0, has_elevated := False,
                          pause_count := 0, station_render_count := 0\<rparr>, Completed))))"

text \<open>\<open>_refresh_data\<close>: the \<open>try\<close> body and its \<open>except Exception\<close> handler.\<close>

definition refresh_data :: "collaborators \<Rightarrow> board \<Rightarrow> board" where
  "refresh_data env b =
     (case refresh_try env b of
        (b', Raised e) \<Rightarrow> b'\<lparr>departure_data := Some []\<rparr>
      | (b', _) \<Rightarrow> b')"

section \<open>Notions used to state the properties\<close>

text \<open>The width that the cache reports for a text in a font.\<close>

definition cached_width :: "rasteriser \<Rightarrow> BitmapTextCache \<Rightarrow> string \<Rightarrow> FreeTypeFont \<Rightarrow> int" where
  "cached_width R c text fnt = (case get_bitmap R c text fnt of ((w, h, r), c') \<Rightarrow> int w)"

text \<open>The bitmap object that the cache returns for a text in a font.\<close>

definition cached_bitmap :: "rasteriser \<Rightarrow> BitmapTextCache \<Rightarrow> string \<Rightarrow> FreeTypeFont \<Rightarrow> bitmap" where
  "cached_bitmap R c text fnt =
     (case get_bitmap R c text fnt of ((w, h, r), c') \<Rightarrow> objects c' ! r)"

text \<open>The points that a bitmap paints when its top left corner is put at \<open>(x, y)\<close>.\<close>

definition placed :: "bitmap \<Rightarrow> int \<Rightarrow> int \<Rightarrow> image" where
  "placed bmp x y =
     {(x + int px, y + int py) | px py. px < bwidth bmp \<and> py < bheight bmp \<and> 0 < pixels bmp px py}"

definition canvas :: image where
  "canvas = {(sx, sy). 0 \<le> sx \<and> sx < 256 \<and> 0 \<le> sy \<and> sy < 64}"

text \<open>The eight spellings of \<open>bus\<close> in upper and lower case.\<close>

definition bus_spellings :: "string set" where
  "bus_spellings = {''bus'', ''buS'', ''bUs'', ''bUS'', ''Bus'', ''BuS'', ''BUs'', ''BUS''}"

text \<open>The clip rectangle of a clipped blit placed at row \<open>y\<close>.\<close>

definition clip_region :: "int \<Rightarrow> int \<Rightarrow> int \<Rightarrow> image" where
  "clip_region y clip_x_start clip_width =
     {(sx, sy). clip_x_start \<le> sx \<and> sx < clip_x_start + clip_width \<and> y \<le> sy \<and> sy < y + 10}"

text \<open>The rows above row 22, across the canvas.\<close>

definition band22 :: image where
  "band22 = {(sx, sy). 0 \<le> sx \<and> sx < 256 \<and> 0 \<le> sy \<and> sy < 22}"

text \<open>The bounds of the scroll animation for a text of height \<open>h\<close>.\<close>

definition scroll_bounds :: "int \<Rightarrow> board \<Rightarrow> bool" where
  "scroll_bounds h b \<longleftrightarrow> 0 \<le> pixels_up b \<and> pixels_up b \<le> h \<and> pixels_left b \<le> 1"

text \<open>
  A later cache extends an earlier one: every entry is kept as it is and bitmap objects
  are only added.
\<close>

definition cache_le :: "BitmapTextCache \<Rightarrow> BitmapTextCache \<Rightarrow> bool" where
  "cache_le c c' \<longleftrightarrow>
     (\<forall>k e. cache c k = Some e \<longrightarrow> cache c' k = Some e) \<and> (\<exists>ys. objects c' = objects c @ ys)"

text \<open>The height that the cache reports for a text in a font.\<close>

definition cached_height :: "rasteriser \<Rightarrow> BitmapTextCache \<Rightarrow> string \<Rightarrow> FreeTypeFont \<Rightarrow> int" where
  "cached_height R c s fnt = (case get_bitmap R c s fnt of ((w, h, r), c') \<Rightarrow> int h)"

text \<open>
  The points painted by an unclipped blit of the cached bitmap of a text, centred on the
  256 pixels of the canvas by its cached width, at row \<open>y\<close>.
\<close>

definition centred :: "rasteriser \<Rightarrow> BitmapTextCache \<Rightarrow> string \<Rightarrow> FreeTypeFont \<Rightarrow> int \<Rightarrow> image" where
  "centred R c s fnt y =
     draw_bitmap {} ((256 - cached_width R c s fnt) div 2) y (cached_bitmap R c s fnt)"

text \<open>The station name of the placeholder screen, or the configured out-of-hours name.\<close>

definition station_label :: "board \<Rightarrow> string" where
  "station_label b =
     (if station_name b \<noteq> [] then station_name b
      else (case outOfHoursName (config b) of None \<Rightarrow> [] | Some n \<Rightarrow> n))"

text \<open>The text of a departure row: an ordinal when configured, the aimed time, the destination.\<close>

definition row_label :: "board_config \<Rightarrow> departure \<Rightarrow> int \<Rightarrow> string" where
  "row_label cfg dep y_pos =
     (if showDepartureNumbers cfg \<and> y_pos = 0 then ''1st  '' else
      if showDepartureNumbers cfg \<and> y_pos = 24 then ''2nd  '' else
      if showDepartureNumbers cfg \<and> y_pos = 36 then ''3rd  '' else []) @
     py_str (aimed_departure_time dep) @ ''  '' @ destination_name dep"

text \<open>The platform label: \<open>BUS\<close> for a platform that is \<open>bus\<close> in any case, else \<open>Plat\<close> and the platform.\<close>

definition platform_label :: "string \<Rightarrow> string" where
  "platform_label p = (if p \<in> bus_spellings then ''BUS'' else ''Plat '' @ p)"

text \<open>
  The points painted by the clipped blit of the calling-at text, for the animation state
  of the board \<open>b\<close>.
\<close>

definition scroll_blit ::
  "rasteriser \<Rightarrow> BitmapTextCache \<Rightarrow> board \<Rightarrow> string \<Rightarrow> int \<Rightarrow> int \<Rightarrow> int \<Rightarrow> image" where
  "scroll_blit R c b s x_offset y_pos max_width =
     (if has_elevated b then
        draw_bitmap_clipped {} (x_offset + pixels_left b - 1) y_pos
          (cached_bitmap R c s (font b)) x_offset max_width
      else
        draw_bitmap_clipped {} x_offset (y_pos + cached_height R c s (font b) - pixels_up b)
          (cached_bitmap R c s (font b)) x_offset max_width)"

text \<open>
  What a departure row paints apart from a platform label: the row text at the left
  edge, the status text right-aligned, and for the first row the calling-at label and
  the scrolling station list below it.
\<close>

definition row_image ::
  "rasteriser \<Rightarrow> BitmapTextCache \<Rightarrow> board \<Rightarrow> departure \<Rightarrow> int \<Rightarrow> FreeTypeFont \<Rightarrow> bool \<Rightarrow> image" where
  "row_image R c b dep y_pos fnt show_calling =
     draw_bitmap {} 0 y_pos (cached_bitmap R c (row_label (config b) dep y_pos) fnt) \<union>
     draw_bitmap {} (256 - cached_width R c (get_status_text dep) (font b)) y_pos
       (cached_bitmap R c (get_status_text dep) (font b)) \<union>
     (if show_calling then
        draw_bitmap {} 0 (y_pos + 12) (cached_bitmap R c ''Calling at: '' (font b)) \<union>
        scroll_blit R c b (calling_at_list dep) (cached_width R c ''Calling at: '' (font b))
          (y_pos + 12) (256 - cached_width R c ''Calling at: '' (font b))
      else {})"

subsection \<open>Sample inputs\<close>

definition sample_font :: FreeTypeFont where
  "sample_font = \<lparr>family = ''Dot Matrix'', style = ''Regular'', size = 10\<rparr>"

definition sample_font_bold :: FreeTypeFont where
  "sample_font_bold = \<lparr>family = ''Dot Matrix'', style = ''Bold'', size = 10\<rparr>"

definition sample_font_bold_tall :: FreeTypeFont where
  "sample_font_bold_tall = \<lparr>family = ''Dot Matrix'', style = ''Bold Tall'', size = 10\<rparr>"

definition sample_font_bold_large :: FreeTypeFont where
  "sample_font_bold_large = \<lparr>family = ''Dot Matrix'', style = ''Bold'', size = 20\<rparr>"

definition sample_config :: board_config where
  "sample_config = \<lparr>firstDepartureBold = True, showDepartureNumbers = False,
     operatingHours = Some ''8-22'', screen1Platform = None, outOfHoursName = Some ''London Paddington''\<rparr>"

definition sample_board :: board where
  "sample_board =
     init_board sample_config sample_font sample_font_bold sample_font_bold_tall sample_font_bold_large"

text \<open>A rasteriser that paints every pixel of a one-row bitmap, one column per character.\<close>

definition sample_rasteriser :: rasteriser where
  "sample_rasteriser fnt text = \<lparr>bwidth = length text, bheight = 1, pixels = (\<lambda>px py. 255)\<rparr>"

definition sample_departure :: departure where
  "sample_departure = \<lparr>aimed_departure_time = PyStr ''10:32'', expected_departure_time = PyStr ''10:45'',
     destination_name = ''Oxford'', platform = Some ''4'', calling_at_list = ''Reading, Didcot Parkway''\<rparr>"


text \<open>Collaborators for a refresh outside the operating hours, and for a failing data source.\<close>

definition sample_closed :: collaborators where
  "sample_closed =
     \<lparr>py_int = (\<lambda>s. if s = ''8'' then Some 8 else if s = ''22'' then Some 22 else None),
      isRun = (\<lambda>a b. Inr False),
      loadDeparturesForStation = Inr (Some [sample_departure], ''Reading'', None)\<rparr>"

definition sample_failing :: collaborators where
  "sample_failing =
     \<lparr>py_int = (\<lambda>s. if s = ''8'' then Some 8 else if s = ''22'' then Some 22 else None),
      isRun = (\<lambda>a b. Inr True),
      loadDeparturesForStation = Inl (OtherError ''connection refused'')\<rparr>"

definition sample_open :: collaborators where
  "sample_open =
     \<lparr>py_int = (\<lambda>s. if s = ''8'' then Some 8 else if s = ''22'' then Some 22 else None),
      isRun = (\<lambda>a b. Inr True),
      loadDeparturesForStation = Inr (Some [sample_departure], ''Reading'', None)\<rparr>"

section \<open>The scroll state machine: transitions, bounds and cycle\<close>

lemma rise_phase:
  "\<not> has_elevated b \<Longrightarrow> pixels_up b + int k \<le> h \<Longrightarrow>
   (scroll_advance w h ^^ k) b = b\<lparr>pixels_up := pixels_up b + int k\<rparr>"
proof (induction k)
  case 0
  then show ?case by simp
next
  case (Suc k)
  then show ?case by (simp add: scroll_advance_def)
qed

lemma pause_phase:
  "\<not> has_elevated b \<Longrightarrow> pixels_up b = h \<Longrightarrow> pause_count b + int k \<le> 100 \<Longrightarrow>
   (scroll_advance w h ^^ k) b = b\<lparr>pause_count := pause_count b + int k\<rparr>"
proof (induction k)
  case 0
  then show ?case by simp
next
  case (Suc k)
  then show ?case by (simp add: scroll_advance_def Let_def)
qed

lemma scroll_phase:
  "has_elevated b \<Longrightarrow> pause_count b = 0 \<Longrightarrow> int k - pixels_left b \<le> w + 1 \<Longrightarrow>
   (scroll_advance w h ^^ k) b = b\<lparr>pixels_left := pixels_left b - int k\<rparr>"
proof (induction k)
  case 0
  then show ?case by simp
next
  case (Suc k)
  then show ?case by (simp add: scroll_advance_def Let_def)
qed

lemma first_cycle:
  assumes "animation_initial b"
  shows "(scroll_advance (int w) (int h) ^^ (h + w + 104)) b =
         b\<lparr>pixels_left := 0, pixels_up := 0, has_elevated := False, pause_count := 1\<rparr>"
proof -
  let ?f = "scroll_advance (int w) (int h)"
  from assms have i: "pixels_left b = 1" "pixels_up b = 0" "\<not> has_elevated b" "pause_count b = 0"
    by (simp_all add: animation_initial_def)
  define b1 where "b1 = b\<lparr>pixels_up := int h\<rparr>"
  have s1: "(?f ^^ h) b = b1"
    using rise_phase[of b h "int h" "int w"] i by (simp add: b1_def)
  define b2 where "b2 = b1\<lparr>pause_count := 100\<rparr>"
  have s2: "(?f ^^ 100) b1 = b2"
    using pause_phase[of b1 "int h" 100 "int w"] i by (simp add: b1_def b2_def)
  define b3 where "b3 = b2\<lparr>pause_count := 101, has_elevated := True, pixels_up := 0\<rparr>"
  have s3: "?f b2 = b3"
    using i by (simp add: scroll_advance_def b1_def b2_def b3_def Let_def)
  define b4 where "b4 = b3\<lparr>pause_count := 0, pixels_left := 0\<rparr>"
  have s4: "?f b3 = b4"
    using i by (simp add: scroll_advance_def b1_def b2_def b3_def b4_def)
  define b5 where "b5 = b4\<lparr>pixels_left := - int (w + 1)\<rparr>"
  have s5: "(?f ^^ (w + 1)) b4 = b5"
    using scroll_phase[of b4 "w + 1" "int w" "int h"] i
    by (simp add: b1_def b2_def b3_def b4_def b5_def)
  define b6 where "b6 = b5\<lparr>pause_count := 1, pixels_left := 0, has_elevated := False\<rparr>"
  have s6: "?f b5 = b6"
    using i by (simp add: scroll_advance_def b1_def b2_def b3_def b4_def b5_def b6_def)
  have "h + w + 104 = 1 + ((w + 1) + (1 + (1 + (100 + h))))" by simp
  then have "(?f ^^ (h + w + 104)) b =
             (?f ^^ 1) ((?f ^^ (w + 1)) ((?f ^^ 1) ((?f ^^ 1) ((?f ^^ 100) ((?f ^^ h) b)))))"
    by (simp only: funpow_add o_apply)
  also have "\<dots> = b6" using s1 s2 s3 s4 s5 s6 by simp
  finally show ?thesis by (simp add: b1_def b2_def b3_def b4_def b5_def b6_def)
qed

lemma never_returned:
  "0 \<le> pause_count b \<Longrightarrow> 0 \<le> pixels_up b \<Longrightarrow> \<not> returned_by w h b n"
proof (induction n arbitrary: b)
  case 0
  show ?case by simp
next
  case (Suc n)
  let ?b = "scroll_advance w h b"
  have nn: "0 \<le> pause_count ?b" "0 \<le> pixels_up ?b"
    using Suc.prems by (auto simp: scroll_advance_def Let_def)
  have "has_elevated ?b \<or> pause_count ?b \<noteq> 0 \<or> pixels_up ?b \<noteq> 0"
    using Suc.prems by (auto simp: scroll_advance_def Let_def)
  with Suc.IH[OF nn] show ?case by (simp add: Let_def)
qed

lemma scroll_bounds_step: "scroll_bounds h b \<Longrightarrow> scroll_bounds h (scroll_advance w h b)"
  by (auto simp: scroll_bounds_def scroll_advance_def Let_def)

lemma scroll_bounds_funpow: "scroll_bounds h b \<Longrightarrow> scroll_bounds h ((scroll_advance w h ^^ n) b)"
  by (induction n) (simp_all add: scroll_bounds_step)

text \<open>
  C1, as amended. In the vertical-reveal phase with the text flush (\<open>pixels_up = h\<close>) the
  step increments \<open>pause_count\<close> and moves to the horizontal phase exactly when the count
  before the step was at least 100, that is, when the incremented count exceeds 100;
  \<open>pixels_up\<close> is then reset to 0 while \<open>pause_count\<close> keeps its incremented value. In the
  horizontal phase the step stays there unless the text has fully left
  (\<open>- pixels_left > w\<close>) and \<open>pause_count < 8\<close>; in that case it goes back to the reveal
  phase with \<open>pixels_left = 0\<close> and \<open>pause_count\<close> incremented; otherwise it decrements
  \<open>pixels_left\<close> and sets \<open>pause_count\<close> to 0.
\<close>

theorem scroll_transition_table:
  "(\<not> has_elevated b \<and> pixels_up b = h \<longrightarrow>
      (has_elevated (scroll_advance w h b) \<longleftrightarrow> 100 \<le> pause_count b) \<and>
      pause_count (scroll_advance w h b) = pause_count b + 1 \<and>
      pixels_up (scroll_advance w h b) = (if 100 \<le> pause_count b then 0 else h) \<and>
      pixels_left (scroll_advance w h b) = pixels_left b) \<and>
   (has_elevated b \<longrightarrow>
      (has_elevated (scroll_advance w h b) \<longleftrightarrow> \<not> (- pixels_left b > w \<and> pause_count b < 8)) \<and>
      pixels_left (scroll_advance w h b) =
        (if - pixels_left b > w \<and> pause_count b < 8 then 0 else pixels_left b - 1) \<and>
      pause_count (scroll_advance w h b) =
        (if - pixels_left b > w \<and> pause_count b < 8 then pause_count b + 1 else 0) \<and>
      pixels_up (scroll_advance w h b) = pixels_up b)"
  by (simp add: scroll_advance_def Let_def)

theorem scroll_transition_table_witness:
  "(\<not> has_elevated (sample_board\<lparr>pixels_up := 10, pause_count := 100\<rparr>) \<and>
    pixels_up (sample_board\<lparr>pixels_up := 10, pause_count := 100\<rparr>) = 10 \<and>
    has_elevated (scroll_advance 5 10 (sample_board\<lparr>pixels_up := 10, pause_count := 100\<rparr>)) \<and>
    pause_count (scroll_advance 5 10 (sample_board\<lparr>pixels_up := 10, pause_count := 100\<rparr>)) = 101 \<and>
    pixels_up (scroll_advance 5 10 (sample_board\<lparr>pixels_up := 10, pause_count := 100\<rparr>)) = 0) \<and>
   (has_elevated (sample_board\<lparr>has_elevated := True, pixels_left := - 6\<rparr>) \<and>
    \<not> has_elevated (scroll_advance 5 10 (sample_board\<lparr>has_elevated := True, pixels_left := - 6\<rparr>)) \<and>
    pixels_left (scroll_advance 5 10 (sample_board\<lparr>has_elevated := True, pixels_left := - 6\<rparr>)) = 0 \<and>
    pause_count (scroll_advance 5 10 (sample_board\<lparr>has_elevated := True, pixels_left := - 6\<rparr>)) = 1)"
  using scroll_transition_table[where b = "sample_board\<lparr>pixels_up := 10, pause_count := 100\<rparr>"
      and h = 10 and w = 5]
    scroll_transition_table[where b = "sample_board\<lparr>has_elevated := True, pixels_left := - 6\<rparr>"
      and h = 10 and w = 5]
  by (simp add: sample_board_def init_board_def)

text \<open>
  C1 as stated fails: with a text of width 5 that has fully left (\<open>pixels_left = - 6\<close>) and
  \<open>pause_count = 0 < 8\<close>, the horizontal phase ends at once; and the step that enters
  the horizontal phase leaves \<open>pause_count\<close> at 101, not at 0.
\<close>

theorem scroll_transition_counterexample:
  "has_elevated (sample_board\<lparr>has_elevated := True, pixels_left := - 6\<rparr>) \<and>
   - pixels_left (sample_board\<lparr>has_elevated := True, pixels_left := - 6\<rparr>) > 5 \<and>
   pause_count (sample_board\<lparr>has_elevated := True, pixels_left := - 6\<rparr>) < 8 \<and>
   \<not> has_elevated (scroll_advance 5 10 (sample_board\<lparr>has_elevated := True, pixels_left := - 6\<rparr>)) \<and>
   has_elevated (scroll_advance 5 10 (sample_board\<lparr>pixels_up := 10, pause_count := 100\<rparr>)) \<and>
   pause_count (scroll_advance 5 10 (sample_board\<lparr>pixels_up := 10, pause_count := 100\<rparr>)) = 101"
  by (simp add: scroll_advance_def sample_board_def init_board_def)

text \<open>
  C3, as amended. For every text width \<open>w\<close> and height \<open>h\<close>, \<open>h + w + 104\<close> frames after the
  initial state the animator is back in the vertical-reveal phase with \<open>pixels_up = 0\<close>,
  \<open>pixels_left = 0\<close> and \<open>pause_count = 1\<close>; this is within \<open>h + w + 108\<close> frames. At no
  frame after the start is it in the reveal phase with both \<open>pause_count = 0\<close> and
  \<open>pixels_up = 0\<close>.
\<close>

theorem scroll_cycle:
  assumes "animation_initial b"
  shows "(scroll_advance (int w) (int h) ^^ (h + w + 104)) b =
           b\<lparr>pixels_left := 0, pixels_up := 0, has_elevated := False, pause_count := 1\<rparr> \<and>
         h + w + 104 \<le> h + w + 108 \<and>
         \<not> returned_by (int w) (int h) b n"
proof -
  have "\<not> returned_by (int w) (int h) b n"
    using assms by (intro never_returned) (simp_all add: animation_initial_def)
  then show ?thesis using first_cycle[OF assms] by simp
qed

theorem scroll_cycle_witness:
  "animation_initial sample_board \<and>
   (scroll_advance 2 3 ^^ 109) sample_board =
     sample_board\<lparr>pixels_left := 0, pixels_up := 0, has_elevated := False, pause_count := 1\<rparr> \<and>
   \<not> returned_by 2 3 sample_board 500"
proof -
  have init: "animation_initial sample_board"
    by (simp add: animation_initial_def sample_board_def init_board_def)
  show ?thesis
    using init scroll_cycle[OF init, where w = 2 and h = 3 and n = 500] by simp
qed

text \<open>
  C3 as stated fails: for a text one pixel wide and one pixel high, none of the first
  1100 frames (ten times \<open>1 + 1 + 108\<close>) after the start is in the reveal phase with
  \<open>pause_count = 0\<close> and \<open>pixels_up = 0\<close>.
\<close>

theorem scroll_cycle_counterexample: "\<not> returned_by 1 1 sample_board 1100"
  by (rule never_returned) (simp_all add: sample_board_def init_board_def)

text \<open>
  C4. From the initial state, after any number of steps with a fixed text width and
  height, \<open>pixels_up\<close> lies in \<open>[0, h]\<close> and \<open>pixels_left \<le> 1\<close>; and every single step
  preserves these bounds.
\<close>

theorem scroll_bounds_invariant:
  "(animation_initial b \<longrightarrow> scroll_bounds (int h) ((scroll_advance (int w) (int h) ^^ n) b)) \<and>
   (scroll_bounds (int h) b \<longrightarrow> scroll_bounds (int h) (scroll_advance (int w) (int h) b))"
proof -
  have "animation_initial b \<Longrightarrow> scroll_bounds (int h) b"
    by (simp add: animation_initial_def scroll_bounds_def)
  then show ?thesis
    using scroll_bounds_funpow[where h = "int h" and b = b and w = "int w" and n = n]
      scroll_bounds_step[where h = "int h" and b = b and w = "int w"]
    by blast
qed

theorem scroll_bounds_invariant_witness:
  "animation_initial sample_board \<and> scroll_bounds 3 sample_board \<and>
   scroll_bounds 3 ((scroll_advance 2 3 ^^ 250) sample_board) \<and>
   scroll_bounds 3 (scroll_advance 2 3 sample_board)"
proof -
  have init: "animation_initial sample_board"
    by (simp add: animation_initial_def sample_board_def init_board_def)
  have bounds: "scroll_bounds 3 sample_board"
    by (simp add: scroll_bounds_def sample_board_def init_board_def)
  show ?thesis
    using init bounds
      scroll_bounds_invariant[where b = sample_board and w = 2 and h = 3 and n = 250]
    by simp
qed

section \<open>The blit primitives write inside their bounds\<close>

lemma fold_insert_if:
  "fold (\<lambda>i d. if P i then insert (g i) d else d) [0..<n] d = d \<union> {g i | i. i < n \<and> P i}"
proof (induction n)
  case 0
  show ?case by simp
next
  case (Suc n)
  have "{g i | i. i < Suc n \<and> P i} = {g i | i. i < n \<and> P i} \<union> (if P n then {g n} else {})"
    by (auto simp: less_Suc_eq)
  with Suc show ?case by auto
qed

lemma fold_union:
  "fold (\<lambda>i d. d \<union> S i) [0..<n] d = d \<union> (\<Union>i<n. S i)"
proof (induction n)
  case 0
  show ?case by simp
next
  case (Suc n)
  then show ?case by (auto simp: less_Suc_eq)
qed

text \<open>The iteration of \<open>_draw_bitmap\<close> paints the lit pixels of the bitmap that fall on the canvas.\<close>

lemma draw_bitmap_eq: "draw_bitmap draw x y bmp = draw \<union> (placed bmp x y \<inter> canvas)"
proof -
  have row: "fold (\<lambda>px d'.
         if pixels bmp px py > 0 then
           (if 0 \<le> x + int px \<and> x + int px < 256 \<and> 0 \<le> y + int py \<and> y + int py < 64
            then insert (x + int px, y + int py) d' else d')
         else d') [0..<bwidth bmp] d
       = d \<union> {(x + int px, y + int py) | px. px < bwidth bmp \<and>
              (pixels bmp px py > 0 \<and> 0 \<le> x + int px \<and> x + int px < 256 \<and>
               0 \<le> y + int py \<and> y + int py < 64)}" for py d
  proof -
    have "(\<lambda>px d'. if pixels bmp px py > 0 then
           (if 0 \<le> x + int px \<and> x + int px < 256 \<and> 0 \<le> y + int py \<and> y + int py < 64
            then insert (x + int px, y + int py) d' else d')
         else d') =
        (\<lambda>px d'. if (pixels bmp px py > 0 \<and> 0 \<le> x + int px \<and> x + int px < 256 \<and>
                      0 \<le> y + int py \<and> y + int py < 64)
                  then insert (x + int px, y + int py) d' else d')"
      by (intro ext) simp
    then show ?thesis
      using fold_insert_if[of "\<lambda>px. pixels bmp px py > 0 \<and> 0 \<le> x + int px \<and> x + int px < 256 \<and>
          0 \<le> y + int py \<and> y + int py < 64" "\<lambda>px. (x + int px, y + int py)" "bwidth bmp" d]
      by simp
  qed
  show ?thesis
    unfolding draw_bitmap_def row fold_union
    by (auto simp: placed_def canvas_def)
qed

text \<open>
  The iteration of \<open>_draw_bitmap_clipped\<close> paints the lit pixels that fall in the clip rectangle
  and above row 22.
\<close>

lemma draw_bitmap_clipped_eq:
  "draw_bitmap_clipped draw x y bmp cs cw =
     draw \<union> (placed bmp x y \<inter> clip_region y cs cw \<inter> band22)"
proof -
  have row: "fold (\<lambda>px d'.
             if pixels bmp px py > 0 then
               (if cs \<le> x + int px \<and> x + int px < cs + cw \<and>
                   y \<le> y + int py \<and> y + int py < y + 10 \<and>
                   0 \<le> x + int px \<and> x + int px < 256 \<and>
                   0 \<le> y + int py \<and> y + int py < 22
                then insert (x + int px, y + int py) d' else d')
             else d') [0..<bwidth bmp] d
       = d \<union> {(x + int px, y + int py) | px. px < bwidth bmp \<and>
              (pixels bmp px py > 0 \<and> cs \<le> x + int px \<and> x + int px < cs + cw \<and>
               y \<le> y + int py \<and> y + int py < y + 10 \<and> 0 \<le> x + int px \<and> x + int px < 256 \<and>
               0 \<le> y + int py \<and> y + int py < 22)}" for py d
  proof -
    have "(\<lambda>px d'.
             if pixels bmp px py > 0 then
               (if cs \<le> x + int px \<and> x + int px < cs + cw \<and>
                   y \<le> y + int py \<and> y + int py < y + 10 \<and>
                   0 \<le> x + int px \<and> x + int px < 256 \<and>
                   0 \<le> y + int py \<and> y + int py < 22
                then insert (x + int px, y + int py) d' else d')
             else d') =
          (\<lambda>px d'. if (pixels bmp px py > 0 \<and> cs \<le> x + int px \<and> x + int px < cs + cw \<and>
                        y \<le> y + int py \<and> y + int py < y + 10 \<and> 0 \<le> x + int px \<and>
                        x + int px < 256 \<and> 0 \<le> y + int py \<and> y + int py < 22)
                    then insert (x + int px, y + int py) d' else d')"
      by (intro ext) simp
    then show ?thesis
      using fold_insert_if[of "\<lambda>px. pixels bmp px py > 0 \<and> cs \<le> x + int px \<and> x + int px < cs + cw \<and>
          y \<le> y + int py \<and> y + int py < y + 10 \<and> 0 \<le> x + int px \<and> x + int px < 256 \<and>
          0 \<le> y + int py \<and> y + int py < 22" "\<lambda>px. (x + int px, y + int py)" "bwidth bmp" d]
      by simp
  qed
  show ?thesis
    unfolding draw_bitmap_clipped_def Let_def row fold_union
    by (auto simp: placed_def clip_region_def band22_def)
qed

text \<open>
  C5. For every bitmap and every placement, also a negative or out-of-range one, the
  unclipped blit adds only points of the 256 by 64 canvas, and the clipped blit adds only
  points of the clip rectangle \<open>[clip_x_start, clip_x_start + clip_width) \<times> [y, y + 10)\<close>
  that lie on the canvas. Both functions are total: a pixel out of range is dropped.
\<close>

theorem blits_confined:
  "draw_bitmap draw x y bmp \<subseteq> draw \<union> canvas \<and>
   draw_bitmap_clipped draw x y bmp clip_x_start clip_width \<subseteq>
     draw \<union> (clip_region y clip_x_start clip_width \<inter> canvas)"
  by (auto simp: draw_bitmap_eq draw_bitmap_clipped_eq band22_def canvas_def)

text \<open>
  C10. The clipped blit never adds a point of row 22 or below it, whatever its
  arguments, and placed at \<open>y \<ge> 22\<close> it adds nothing.
\<close>

theorem clipped_blit_row_limit:
  "draw_bitmap_clipped draw x y bmp clip_x_start clip_width \<subseteq> draw \<union> {(sx, sy). sy < 22} \<and>
   (22 \<le> y \<longrightarrow> draw_bitmap_clipped draw x y bmp clip_x_start clip_width = draw)"
  by (auto simp: draw_bitmap_clipped_eq band22_def clip_region_def)

theorem clipped_blit_row_limit_witness:
  "(22::int) \<le> 30 \<and>
   draw_bitmap_clipped {} 3 30 (sample_rasteriser sample_font ''Reading'') 0 256 = {}"
  using clipped_blit_row_limit[where y = 30 and draw = "{}" and x = 3
      and bmp = "sample_rasteriser sample_font ''Reading''" and clip_x_start = 0
      and clip_width = 256]
  by simp

section \<open>The bitmap cache shares its bitmaps\<close>

lemma cache_le_refl: "cache_le c c"
  by (simp add: cache_le_def)

lemma cache_le_trans: "cache_le a b \<Longrightarrow> cache_le b c \<Longrightarrow> cache_le a c"
  by (auto simp: cache_le_def)

lemma get_bitmap_le: "get_bitmap R c t f = (res, c') \<Longrightarrow> cache_le c c'"
  by (auto simp: get_bitmap_def cache_le_def Let_def split: option.splits)

lemma get_bitmap_wf: "wf_cache c \<Longrightarrow> get_bitmap R c t f = (res, c') \<Longrightarrow> wf_cache c'"
  by (auto simp: get_bitmap_def wf_cache_def Let_def less_Suc_eq split: option.splits if_splits)

lemma get_bitmap_entry:
  "get_bitmap R c t f = ((w, h, r), c') \<Longrightarrow>
   cache c' (t @ font_key f) = Some \<lparr>bitmap_ref = r, txt_width = w, txt_height = h\<rparr>"
  by (auto simp: get_bitmap_def Let_def split: option.splits)

lemma get_bitmap_hit:
  "cache c (t @ font_key f) = Some e \<Longrightarrow>
   get_bitmap R c t f = ((txt_width e, txt_height e, bitmap_ref e), c)"
  by (simp add: get_bitmap_def)

lemma get_bitmap_again:
  assumes "get_bitmap R c t f = ((w, h, r), c')" and "cache_le c' c''"
  shows "get_bitmap R c'' t f = ((w, h, r), c'')"
proof -
  from assms
  have "cache c'' (t @ font_key f) = Some \<lparr>bitmap_ref = r, txt_width = w, txt_height = h\<rparr>"
    by (auto dest!: get_bitmap_entry simp: cache_le_def)
  then show ?thesis by (simp add: get_bitmap_hit)
qed

lemma get_bitmap_ref_valid:
  assumes "wf_cache c" and "get_bitmap R c t f = ((w, h, r), c')"
  shows "r < length (objects c')"
proof -
  have "wf_cache c'" using assms by (rule get_bitmap_wf)
  moreover
  have "cache c' (t @ font_key f) = Some \<lparr>bitmap_ref = r, txt_width = w, txt_height = h\<rparr>"
    using assms(2) by (rule get_bitmap_entry)
  ultimately
  have "bitmap_ref \<lparr>bitmap_ref = r, txt_width = w, txt_height = h\<rparr> < length (objects c')"
    unfolding wf_cache_def by blast
  then show ?thesis by simp
qed

lemma objects_stable:
  "cache_le c c' \<Longrightarrow> r < length (objects c) \<Longrightarrow> objects c' ! r = objects c ! r"
  by (auto simp: cache_le_def nth_append)

lemma cached_stable:
  assumes "wf_cache c" and "get_bitmap R c t f = ((w, h, r), c')" and "cache_le c' c''"
  shows "cached_width R c'' t f = int w" and "cached_bitmap R c'' t f = objects c' ! r"
proof -
  have g: "get_bitmap R c'' t f = ((w, h, r), c'')"
    using assms(2,3) by (rule get_bitmap_again)
  show "cached_width R c'' t f = int w" by (simp add: cached_width_def g)
  have "r < length (objects c')" using assms(1,2) by (rule get_bitmap_ref_valid)
  then show "cached_bitmap R c'' t f = objects c' ! r"
    using assms(3) by (simp add: cached_bitmap_def g objects_stable)
qed

lemma get_bitmaps_le: "cache_le c (get_bitmaps R c qs)"
proof (induction qs arbitrary: c)
  case Nil
  show ?case by (simp add: cache_le_refl)
next
  case (Cons q qs)
  obtain t f where q: "q = (t, f)" by (cases q)
  obtain res c1 where g: "get_bitmap R c t f = (res, c1)" by (cases "get_bitmap R c t f")
  have "cache_le c c1" using g by (rule get_bitmap_le)
  moreover have "cache_le c1 (get_bitmaps R c1 qs)" by (rule Cons.IH)
  ultimately show ?case using q g by (auto intro: cache_le_trans)
qed

text \<open>
  C8. Take a lookup of a text in a font, then any sequence of further lookups, then the
  same lookup again. The second call returns the same width, the same height and the
  same bitmap reference as the first and leaves the cache as it is; the reference
  points to an allocated object, and that object is the one the first call returned,
  unchanged by the lookups in between. (The blit functions read a bitmap and return
  only the frame, so no other operation can write to a bitmap.)
\<close>

theorem get_bitmap_shared:
  assumes "wf_cache c"
  shows "case get_bitmap R c s fnt of
           ((w, h, r), c1) \<Rightarrow>
             get_bitmap R (get_bitmaps R c1 qs) s fnt = ((w, h, r), get_bitmaps R c1 qs) \<and>
             r < length (objects c1) \<and>
             objects (get_bitmaps R c1 qs) ! r = objects c1 ! r"
proof -
  obtain w h r c1 where g: "get_bitmap R c s fnt = ((w, h, r), c1)"
    by (cases "get_bitmap R c s fnt") auto
  have le: "cache_le c1 (get_bitmaps R c1 qs)" by (rule get_bitmaps_le)
  have v: "r < length (objects c1)" using assms g by (rule get_bitmap_ref_valid)
  show ?thesis
    using get_bitmap_again[OF g le] v objects_stable[OF le v] by (simp add: g)
qed

theorem get_bitmap_shared_witness:
  "wf_cache (bitmap_cache sample_board) \<and>
   (case get_bitmap sample_rasteriser (bitmap_cache sample_board) ''On time'' sample_font of
      ((w, h, r), c1) \<Rightarrow>
        get_bitmap sample_rasteriser
          (get_bitmaps sample_rasteriser c1 [(''Exp 10:45'', sample_font), (''On time'', sample_font_bold)])
          ''On time'' sample_font =
        ((w, h, r),
         get_bitmaps sample_rasteriser c1 [(''Exp 10:45'', sample_font), (''On time'', sample_font_bold)]) \<and>
        r < length (objects c1) \<and>
        objects (get_bitmaps sample_rasteriser c1
                   [(''Exp 10:45'', sample_font), (''On time'', sample_font_bold)]) ! r =
        objects c1 ! r)"
proof -
  have wf: "wf_cache (bitmap_cache sample_board)"
    by (simp add: wf_cache_def sample_board_def init_board_def)
  show ?thesis
    using wf get_bitmap_shared[OF wf, where R = sample_rasteriser and s = "''On time''"
        and fnt = sample_font
        and qs = "[(''Exp 10:45'', sample_font), (''On time'', sample_font_bold)]"]
    by blast
qed

section \<open>Status text\<close>

text \<open>
  C6. The status text is the sentinel itself when the expected time is \<open>On time\<close>,
  \<open>Cancelled\<close> or \<open>Delayed\<close>; it is \<open>Exp\<close> followed by the expected time when that is a
  string that is no sentinel and differs from the aimed time; and it is \<open>On time\<close> in
  every remaining case, that is, when the expected time is not a string or equals the
  aimed time without being \<open>Cancelled\<close> or \<open>Delayed\<close>.
\<close>

theorem status_text_mapping:
  "(expected_departure_time dep = PyStr ''On time'' \<longrightarrow> get_status_text dep = ''On time'') \<and>
   (expected_departure_time dep = PyStr ''Cancelled'' \<longrightarrow> get_status_text dep = ''Cancelled'') \<and>
   (expected_departure_time dep = PyStr ''Delayed'' \<longrightarrow> get_status_text dep = ''Delayed'') \<and>
   (\<forall>e. expected_departure_time dep = PyStr e \<and> e \<noteq> ''On time'' \<and> e \<noteq> ''Cancelled'' \<and>
        e \<noteq> ''Delayed'' \<and> PyStr e \<noteq> aimed_departure_time dep \<longrightarrow>
        get_status_text dep = ''Exp '' @ e) \<and>
   (expected_departure_time dep \<noteq> PyStr ''Cancelled'' \<and>
    expected_departure_time dep \<noteq> PyStr ''Delayed'' \<and>
    (expected_departure_time dep = PyNone \<or>
     expected_departure_time dep = aimed_departure_time dep) \<longrightarrow>
      get_status_text dep = ''On time'')"
  by (auto simp: get_status_text_def Let_def split: pyval.splits)

theorem status_text_mapping_witness:
  "get_status_text (sample_departure\<lparr>expected_departure_time := PyStr ''On time''\<rparr>) = ''On time'' \<and>
   get_status_text (sample_departure\<lparr>expected_departure_time := PyStr ''Cancelled''\<rparr>) = ''Cancelled'' \<and>
   get_status_text (sample_departure\<lparr>expected_departure_time := PyStr ''Delayed''\<rparr>) = ''Delayed'' \<and>
   expected_departure_time sample_departure = PyStr ''10:45'' \<and>
   PyStr ''10:45'' \<noteq> aimed_departure_time sample_departure \<and>
   get_status_text sample_departure = ''Exp 10:45'' \<and>
   get_status_text (sample_departure\<lparr>expected_departure_time := PyStr ''10:32''\<rparr>) = ''On time'' \<and>
   get_status_text (sample_departure\<lparr>expected_departure_time := PyNone\<rparr>) = ''On time''"
  using status_text_mapping[of "sample_departure\<lparr>expected_departure_time := PyStr ''On time''\<rparr>"]
    status_text_mapping[of "sample_departure\<lparr>expected_departure_time := PyStr ''Cancelled''\<rparr>"]
    status_text_mapping[of "sample_departure\<lparr>expected_departure_time := PyStr ''Delayed''\<rparr>"]
    status_text_mapping[of sample_departure]
    status_text_mapping[of "sample_departure\<lparr>expected_departure_time := PyStr ''10:32''\<rparr>"]
    status_text_mapping[of "sample_departure\<lparr>expected_departure_time := PyNone\<rparr>"]
  by (simp add: sample_departure_def)

section \<open>Data refresh and the animation state\<close>

text \<open>
  C2, as amended. When the refresh completes the normal load, the scroll animation is
  in its initial state afterwards. When it ends on the out-of-hours path or with an
  exception, the departure list is empty afterwards and the four animation fields are
  as they were before the call. A data source that raises never completes the load.
\<close>

theorem refresh_data_animation:
  "(snd (refresh_try env b) = Completed \<longrightarrow> animation_initial (refresh_data env b)) \<and>
   (snd (refresh_try env b) \<noteq> Completed \<longrightarrow>
      departure_data (refresh_data env b) = Some [] \<and>
      pixels_left (refresh_data env b) = pixels_left b \<and>
      pixels_up (refresh_data env b) = pixels_up b \<and>
      has_elevated (refresh_data env b) = has_elevated b \<and>
      pause_count (refresh_data env b) = pause_count b) \<and>
   ((\<exists>e. loadDeparturesForStation env = Inl e) \<longrightarrow> snd (refresh_try env b) \<noteq> Completed)"
  by (auto simp: refresh_data_def refresh_try_def animation_initial_def Let_def
      split: option.splits sum.splits bool.splits prod.splits if_splits)

lemma sample_hours: "split_str CHR ''-'' ''8-22'' = [''8'', ''22'']"
  by simp

theorem refresh_data_animation_witness:
  "snd (refresh_try sample_open (scroll_advance 5 10 sample_board)) = Completed \<and>
   animation_initial (refresh_data sample_open (scroll_advance 5 10 sample_board)) \<and>
   snd (refresh_try sample_closed (scroll_advance 5 10 sample_board)) \<noteq> Completed \<and>
   departure_data (refresh_data sample_closed (scroll_advance 5 10 sample_board)) = Some [] \<and>
   pixels_up (refresh_data sample_closed (scroll_advance 5 10 sample_board)) =
     pixels_up (scroll_advance 5 10 sample_board) \<and>
   (\<exists>e. loadDeparturesForStation sample_failing = Inl e) \<and>
   snd (refresh_try sample_failing (scroll_advance 5 10 sample_board)) \<noteq> Completed \<and>
   pixels_up (refresh_data sample_failing (scroll_advance 5 10 sample_board)) =
     pixels_up (scroll_advance 5 10 sample_board)"
proof -
  have "snd (refresh_try sample_open (scroll_advance 5 10 sample_board)) = Completed"
    by (simp add: refresh_try_def sample_open_def scroll_advance_def sample_board_def
        init_board_def sample_config_def sample_hours Let_def)
  moreover
  have "snd (refresh_try sample_closed (scroll_advance 5 10 sample_board)) \<noteq> Completed"
    by (simp add: refresh_try_def sample_closed_def scroll_advance_def sample_board_def
        init_board_def sample_config_def sample_hours Let_def)
  moreover
  have "\<exists>e. loadDeparturesForStation sample_failing = Inl e"
    by (simp add: sample_failing_def)
  ultimately show ?thesis
    using refresh_data_animation[of sample_open "scroll_advance 5 10 sample_board"]
      refresh_data_animation[of sample_closed "scroll_advance 5 10 sample_board"]
      refresh_data_animation[of sample_failing "scroll_advance 5 10 sample_board"]
    by simp
qed

text \<open>
  C2 as stated fails: one frame after the start \<open>pixels_up\<close> is 1, and a refresh outside
  the operating hours, or one whose data source raises, leaves it at 1.
\<close>

theorem refresh_data_counterexample:
  "pixels_up (refresh_data sample_closed (scroll_advance 5 10 sample_board)) = 1 \<and>
   \<not> animation_initial (refresh_data sample_closed (scroll_advance 5 10 sample_board)) \<and>
   pixels_up (refresh_data sample_failing (scroll_advance 5 10 sample_board)) = 1 \<and>
   \<not> animation_initial (refresh_data sample_failing (scroll_advance 5 10 sample_board))"
  by (simp add: refresh_data_def refresh_try_def sample_closed_def sample_failing_def
      scroll_advance_def sample_board_def init_board_def sample_config_def sample_hours
      animation_initial_def Let_def)

section \<open>Frame composition paints the texts where the layout puts them\<close>

lemma draw_bitmap_union: "draw_bitmap draw x y bmp = draw \<union> draw_bitmap {} x y bmp"
  by (simp add: draw_bitmap_eq)

lemma draw_bitmap_clipped_union:
  "draw_bitmap_clipped draw x y bmp cs cw = draw \<union> draw_bitmap_clipped {} x y bmp cs cw"
  by (simp add: draw_bitmap_clipped_eq)

lemma cached_height_stable:
  assumes "get_bitmap R c t f = ((w, h, r), c')" and "cache_le c' c''"
  shows "cached_height R c'' t f = int h"
  using get_bitmap_again[OF assms] by (simp add: cached_height_def)

lemma scroll_advance_cache [simp]: "bitmap_cache (scroll_advance w h b) = bitmap_cache b"
  by (simp add: scroll_advance_def Let_def)

lemma draw_scrolling_text_eq:
  assumes wf: "wf_cache (bitmap_cache b)"
  obtains c where
    "draw_scrolling_text R b draw s xo yp mw =
       (scroll_advance (cached_width R c s (font b)) (cached_height R c s (font b))
          (b\<lparr>bitmap_cache := c\<rparr>),
        draw \<union> scroll_blit R c b s xo yp mw)"
    and "cache_le (bitmap_cache b) c" and "wf_cache c"
proof -
  obtain w h r c where g: "get_bitmap R (bitmap_cache b) s (font b) = ((w, h, r), c)"
    by (metis prod_cases3 surj_pair)
  have le: "cache_le (bitmap_cache b) c" using g by (rule get_bitmap_le)
  have wfc: "wf_cache c" using wf g by (rule get_bitmap_wf)
  have st: "cached_width R c s (font b) = int w" "cached_bitmap R c s (font b) = objects c ! r"
    using cached_stable[OF wf g cache_le_refl] by simp_all
  have sh: "cached_height R c s (font b) = int h"
    using cached_height_stable[OF g cache_le_refl] .
  have "draw_scrolling_text R b draw s xo yp mw =
       (scroll_advance (cached_width R c s (font b)) (cached_height R c s (font b))
          (b\<lparr>bitmap_cache := c\<rparr>),
        draw \<union> scroll_blit R c b s xo yp mw)"
    unfolding st sh scroll_blit_def draw_scrolling_text_def g
    by (simp add: Let_def draw_bitmap_clipped_union[of draw])
  then show ?thesis using le wfc that by blast
qed

lemma chars: "char_of (98::nat) = CHR ''b''" "char_of (66::nat) = CHR ''B''"
  "char_of (117::nat) = CHR ''u''" "char_of (85::nat) = CHR ''U''"
  "char_of (115::nat) = CHR ''s''" "char_of (83::nat) = CHR ''S''"
  by (simp_all add: char_of_eq_iff)

lemma lower_char_eq:
  assumes "97 \<le> (n::nat)" and "n \<le> 122"
  shows "lower_char c = char_of n \<longleftrightarrow> c = char_of n \<or> c = char_of (n - 32)"
proof -
  define k where "k = (of_char c :: nat)"
  have c: "c = char_of k" by (simp add: k_def)
  have k: "k < 256" by (simp add: k_def)
  have e1: "\<And>m. m < 256 \<Longrightarrow> (char_of k = (char_of m :: char)) \<longleftrightarrow> k = m" using k by simp
  have "lower_char c = (if 65 \<le> k \<and> k \<le> 90 then char_of (k + 32) else char_of k)"
    by (simp add: lower_char_def k_def)
  moreover have "65 \<le> k \<and> k \<le> 90 \<Longrightarrow> (char_of (k + 32) = (char_of n :: char)) \<longleftrightarrow> k + 32 = n"
    using assms by simp
  ultimately show ?thesis
    using assms e1[of n] e1[of "n - 32"] unfolding c by (auto split: if_splits)
qed

lemma lower_bus: "lower p = ''bus'' \<longleftrightarrow> p \<in> bus_spellings"
proof -
  have b: "\<And>c. lower_char c = CHR ''b'' \<longleftrightarrow> c = CHR ''b'' \<or> c = CHR ''B''"
    using lower_char_eq[of 98] by (simp add: chars)
  have u: "\<And>c. lower_char c = CHR ''u'' \<longleftrightarrow> c = CHR ''u'' \<or> c = CHR ''U''"
    using lower_char_eq[of 117] by (simp add: chars)
  have s: "\<And>c. lower_char c = CHR ''s'' \<longleftrightarrow> c = CHR ''s'' \<or> c = CHR ''S''"
    using lower_char_eq[of 115] by (simp add: chars)
  have "lower p = ''bus'' \<longleftrightarrow>
        (\<exists>c1 c2 c3. p = [c1, c2, c3] \<and> lower_char c1 = CHR ''b'' \<and> lower_char c2 = CHR ''u'' \<and> lower_char c3 = CHR ''s'')"
    by (auto simp: lower_def map_eq_Cons_conv)
  then show ?thesis unfolding b u s bus_spellings_def by auto
qed

lemma draw_departure_row_alt:
  "draw_departure_row R b draw dep y_pos fnt show_calling =
     (let ((w, h, r), c1) = get_bitmap R (bitmap_cache b) (row_label (config b) dep y_pos) fnt;
          draw1 = draw_bitmap draw 0 y_pos (objects c1 ! r);
          ((w_status, h_status, r_status), c2) = get_bitmap R c1 (get_status_text dep) (font b);
          draw2 = draw_bitmap draw1 (256 - int w_status) y_pos (objects c2 ! r_status);
          (c3, draw3) =
            (case platform dep of
               None \<Rightarrow> (c2, draw2)
             | Some p \<Rightarrow>
                 (let ((w_plat, h_plat, r_plat), c3) = get_bitmap R c2 (platform_label p) (font b)
                  in (c3, draw_bitmap draw2 (256 - int w_status - int w_plat - 5) y_pos
                            (objects c3 ! r_plat))))
      in if show_calling then
           (let ((w_call, h_call, r_call), c4) = get_bitmap R c3 ''Calling at: '' (font b);
                draw4 = draw_bitmap draw3 0 (y_pos + 12) (objects c4 ! r_call)
            in draw_scrolling_text R (b\<lparr>bitmap_cache := c4\<rparr>) draw4 (calling_at_list dep)
                 (int w_call) (y_pos + 12) (256 - int w_call))
         else (b\<lparr>bitmap_cache := c3\<rparr>, draw3))"
proof -
  have tt: "(if showDepartureNumbers (config b) \<and> y_pos = 0 then
               ''1st  '' @ py_str (aimed_departure_time dep) @ ''  '' @ destination_name dep
             else if showDepartureNumbers (config b) \<and> y_pos = 24 then
               ''2nd  '' @ py_str (aimed_departure_time dep) @ ''  '' @ destination_name dep
             else if showDepartureNumbers (config b) \<and> y_pos = 36 then
               ''3rd  '' @ py_str (aimed_departure_time dep) @ ''  '' @ destination_name dep
             else py_str (aimed_departure_time dep) @ ''  '' @ destination_name dep)
        = row_label (config b) dep y_pos"
    by (simp add: row_label_def)
  have pl: "\<And>p. (if lower p = ''bus'' then ''BUS'' else ''Plat '' @ p) = platform_label p"
    by (simp add: platform_label_def lower_bus)
  show ?thesis
    unfolding draw_departure_row_def Let_def tt pl ..
qed

text \<open>
  C9. When the departure list is absent or empty, the board part of a frame is painted
  by \<open>_draw_no_trains\<close> alone, which paints exactly three texts: \<open>Welcome to\<close> in the
  bold font at row 5, the station name (or the configured out-of-hours name) in the
  bold font at row 17 and \<open>No trains scheduled\<close> in the regular font at row 35, each with
  its left edge at \<open>(256 - width) div 2\<close> for the width the cache reports. No departure row
  is drawn; the frame is completed by the clock, which every frame carries.
\<close>

theorem no_trains_placeholder:
  assumes wf: "wf_cache (bitmap_cache b)"
    and empty: "departure_data b = None \<or> departure_data b = Some []"
  shows "case draw_no_trains R b {} of
           (b1, draw1) \<Rightarrow>
             draw1 = centred R (bitmap_cache b1) ''Welcome to'' (font_bold b) 5 \<union>
                     centred R (bitmap_cache b1) (station_label b) (font_bold b) 17 \<union>
                     centred R (bitmap_cache b1) ''No trains scheduled'' (font b) 35 \<and>
             render_frame R b hour minute second = draw_time R b1 draw1 hour minute second"
proof -
  obtain w1 h1 r1 c1 where g1:
    "get_bitmap R (bitmap_cache b) ''Welcome to'' (font_bold b) = ((w1, h1, r1), c1)"
    by (metis prod_cases3 surj_pair)
  obtain w2 h2 r2 c2 where g2:
    "get_bitmap R c1 (station_label b) (font_bold b) = ((w2, h2, r2), c2)"
    by (metis prod_cases3 surj_pair)
  obtain w3 h3 r3 c3 where g3:
    "get_bitmap R c2 ''No trains scheduled'' (font b) = ((w3, h3, r3), c3)"
    by (metis prod_cases3 surj_pair)
  have wf1: "wf_cache c1" using wf g1 by (rule get_bitmap_wf)
  have wf2: "wf_cache c2" using wf1 g2 by (rule get_bitmap_wf)
  have le12: "cache_le c1 c2" using g2 by (rule get_bitmap_le)
  have le23: "cache_le c2 c3" using g3 by (rule get_bitmap_le)
  have le13: "cache_le c1 c3" using le12 le23 by (rule cache_le_trans)
  have le33: "cache_le c3 c3" by (rule cache_le_refl)
  have res: "draw_no_trains R b {} =
      (b\<lparr>bitmap_cache := c3\<rparr>,
       draw_bitmap (draw_bitmap (draw_bitmap {} ((256 - int w1) div 2) 5 (objects c1 ! r1))
          ((256 - int w2) div 2) 17 (objects c2 ! r2)) ((256 - int w3) div 2) 35 (objects c3 ! r3))"
    using g1 g2 g3 by (simp add: draw_no_trains_def station_label_def Let_def)
  have p1: "centred R c3 ''Welcome to'' (font_bold b) 5 =
      draw_bitmap {} ((256 - int w1) div 2) 5 (objects c1 ! r1)"
    using cached_stable[OF wf g1 le13] by (simp add: centred_def)
  have p2: "centred R c3 (station_label b) (font_bold b) 17 =
      draw_bitmap {} ((256 - int w2) div 2) 17 (objects c2 ! r2)"
    using cached_stable[OF wf1 g2 le23] by (simp add: centred_def)
  have p3: "centred R c3 ''No trains scheduled'' (font b) 35 =
      draw_bitmap {} ((256 - int w3) div 2) 35 (objects c3 ! r3)"
    using cached_stable[OF wf2 g3 le33] by (simp add: centred_def)
  have img: "draw_bitmap (draw_bitmap (draw_bitmap {} ((256 - int w1) div 2) 5 (objects c1 ! r1))
          ((256 - int w2) div 2) 17 (objects c2 ! r2)) ((256 - int w3) div 2) 35 (objects c3 ! r3)
       = centred R c3 ''Welcome to'' (font_bold b) 5 \<union>
         centred R c3 (station_label b) (font_bold b) 17 \<union>
         centred R c3 ''No trains scheduled'' (font b) 35"
    unfolding p1 p2 p3
    by (subst draw_bitmap_union, subst (2) draw_bitmap_union) simp
  have rf: "render_frame R b hour minute second =
      (case draw_no_trains R b {} of (b1, draw1) \<Rightarrow> draw_time R b1 draw1 hour minute second)"
    using empty by (auto simp: render_frame_def Let_def)
  show ?thesis
    unfolding rf res using img by simp
qed

theorem no_trains_placeholder_witness:
  "wf_cache (bitmap_cache sample_board) \<and> departure_data sample_board = None \<and>
   station_label sample_board = ''London Paddington'' \<and>
   (case draw_no_trains sample_rasteriser sample_board {} of
      (b1, draw1) \<Rightarrow>
        draw1 = centred sample_rasteriser (bitmap_cache b1) ''Welcome to'' (font_bold sample_board) 5 \<union>
                centred sample_rasteriser (bitmap_cache b1) (station_label sample_board)
                  (font_bold sample_board) 17 \<union>
                centred sample_rasteriser (bitmap_cache b1) ''No trains scheduled'' (font sample_board) 35 \<and>
        render_frame sample_rasteriser sample_board ''10'' ''05'' ''07'' =
          draw_time sample_rasteriser b1 draw1 ''10'' ''05'' ''07'') \<and>
   (123, 5) \<in> snd (draw_no_trains sample_rasteriser sample_board {}) \<and>
   (122, 5) \<notin> snd (draw_no_trains sample_rasteriser sample_board {}) \<and>
   (119, 17) \<in> snd (draw_no_trains sample_rasteriser sample_board {}) \<and>
   (118, 35) \<in> snd (draw_no_trains sample_rasteriser sample_board {})"
proof -
  have wf: "wf_cache (bitmap_cache sample_board)"
    by (simp add: wf_cache_def sample_board_def init_board_def)
  have none: "departure_data sample_board = None"
    by (simp add: sample_board_def init_board_def)
  have label: "station_label sample_board = ''London Paddington''"
    by (simp add: station_label_def sample_board_def init_board_def sample_config_def)
  have p1: "(123, 5) \<in> snd (draw_no_trains sample_rasteriser sample_board {})"
    by code_simp
  have p2: "(122, 5) \<notin> snd (draw_no_trains sample_rasteriser sample_board {})"
    by code_simp
  have p3: "(119, 17) \<in> snd (draw_no_trains sample_rasteriser sample_board {})"
    by code_simp
  have p4: "(118, 35) \<in> snd (draw_no_trains sample_rasteriser sample_board {})"
    by code_simp
  show ?thesis
    using wf none label p1 p2 p3 p4
      no_trains_placeholder[OF wf disjI1[OF none], where R = sample_rasteriser
        and hour = "''10''" and minute = "''05''" and second = "''07''"]
    by blast
qed

text \<open>
  C7. A departure row paints, besides its row text, status text and calling-at line, a
  platform label exactly when the departure has a platform. The label is \<open>BUS\<close> when the
  platform is \<open>bus\<close> in any mix of upper and lower case and \<open>Plat\<close> followed by the
  platform otherwise, and its left edge is at
  \<open>x = 256 - statusWidth - platformWidth - 5\<close> in the row, the widths being those the
  cache reports. A departure without a platform paints no label.
\<close>

theorem platform_label_placement:
  assumes wf: "wf_cache (bitmap_cache b)"
  shows "case draw_departure_row R b draw dep y_pos fnt show_calling of
           (b', draw') \<Rightarrow>
             (case platform dep of
                None \<Rightarrow> draw' = draw \<union> row_image R (bitmap_cache b') b dep y_pos fnt show_calling
              | Some p \<Rightarrow>
                  draw' = draw \<union> row_image R (bitmap_cache b') b dep y_pos fnt show_calling \<union>
                    draw_bitmap {}
                      (256 - cached_width R (bitmap_cache b') (get_status_text dep) (font b)
                           - cached_width R (bitmap_cache b') (platform_label p) (font b) - 5)
                      y_pos (cached_bitmap R (bitmap_cache b') (platform_label p) (font b)))"
proof -
  let ?f = "font b"
  obtain w h r c1 where g1:
    "get_bitmap R (bitmap_cache b) (row_label (config b) dep y_pos) fnt = ((w, h, r), c1)"
    by (metis prod_cases3 surj_pair)
  obtain ws hs rs c2 where g2: "get_bitmap R c1 (get_status_text dep) ?f = ((ws, hs, rs), c2)"
    by (metis prod_cases3 surj_pair)
  have wf1: "wf_cache c1" using wf g1 by (rule get_bitmap_wf)
  have wf2: "wf_cache c2" using wf1 g2 by (rule get_bitmap_wf)
  have le12: "cache_le c1 c2" using g2 by (rule get_bitmap_le)
  \<comment> \<open>the platform block\<close>
  obtain c3 P where
    plat: "(case platform dep of
              None \<Rightarrow> (c2, draw_bitmap (draw_bitmap draw 0 y_pos (objects c1 ! r)) (256 - int ws) y_pos (objects c2 ! rs))
            | Some p \<Rightarrow>
                (let ((w_plat, h_plat, r_plat), c3) = get_bitmap R c2 (platform_label p) ?f
                 in (c3, draw_bitmap (draw_bitmap (draw_bitmap draw 0 y_pos (objects c1 ! r)) (256 - int ws) y_pos (objects c2 ! rs))
                           (256 - int ws - int w_plat - 5) y_pos (objects c3 ! r_plat))))
           = (c3, draw \<union> draw_bitmap {} 0 y_pos (objects c1 ! r) \<union>
                  draw_bitmap {} (256 - int ws) y_pos (objects c2 ! rs) \<union> P)"
    and le23: "cache_le c2 c3" and wf3: "wf_cache c3"
    and P: "\<And>c. cache_le c3 c \<Longrightarrow>
        P = (case platform dep of None \<Rightarrow> {}
             | Some p \<Rightarrow> draw_bitmap {}
                 (256 - int ws - cached_width R c (platform_label p) ?f - 5)
                 y_pos (cached_bitmap R c (platform_label p) ?f))"
  proof (cases "platform dep")
    case None
    show ?thesis
    proof (rule that[of c2 "{}"])
      show "(case platform dep of
              None \<Rightarrow> (c2, draw_bitmap (draw_bitmap draw 0 y_pos (objects c1 ! r)) (256 - int ws) y_pos (objects c2 ! rs))
            | Some p \<Rightarrow>
                (let ((w_plat, h_plat, r_plat), c3) = get_bitmap R c2 (platform_label p) ?f
                 in (c3, draw_bitmap (draw_bitmap (draw_bitmap draw 0 y_pos (objects c1 ! r)) (256 - int ws) y_pos (objects c2 ! rs))
                           (256 - int ws - int w_plat - 5) y_pos (objects c3 ! r_plat))))
           = (c2, draw \<union> draw_bitmap {} 0 y_pos (objects c1 ! r) \<union>
                  draw_bitmap {} (256 - int ws) y_pos (objects c2 ! rs) \<union> {})"
        using None by (simp add: draw_bitmap_eq Un_assoc)
    qed (simp_all add: None cache_le_refl wf2)
  next
    case (Some p)
    obtain wp hp rp c3 where g3: "get_bitmap R c2 (platform_label p) ?f = ((wp, hp, rp), c3)"
      by (metis prod_cases3 surj_pair)
    have le23: "cache_le c2 c3" using g3 by (rule get_bitmap_le)
    have wf3: "wf_cache c3" using wf2 g3 by (rule get_bitmap_wf)
    show ?thesis
    proof (rule that[of c3 "draw_bitmap {} (256 - int ws - int wp - 5) y_pos (objects c3 ! rp)"])
      show "(case platform dep of
              None \<Rightarrow> (c2, draw_bitmap (draw_bitmap draw 0 y_pos (objects c1 ! r)) (256 - int ws) y_pos (objects c2 ! rs))
            | Some p \<Rightarrow>
                (let ((w_plat, h_plat, r_plat), c3) = get_bitmap R c2 (platform_label p) ?f
                 in (c3, draw_bitmap (draw_bitmap (draw_bitmap draw 0 y_pos (objects c1 ! r)) (256 - int ws) y_pos (objects c2 ! rs))
                           (256 - int ws - int w_plat - 5) y_pos (objects c3 ! r_plat))))
           = (c3, draw \<union> draw_bitmap {} 0 y_pos (objects c1 ! r) \<union>
                  draw_bitmap {} (256 - int ws) y_pos (objects c2 ! rs) \<union>
                  draw_bitmap {} (256 - int ws - int wp - 5) y_pos (objects c3 ! rp))"
        using Some g3 by (simp add: draw_bitmap_eq Un_assoc)
      show "cache_le c2 c3" by (rule le23)
      show "wf_cache c3" by (rule wf3)
      show "draw_bitmap {} (256 - int ws - int wp - 5) y_pos (objects c3 ! rp) =
         (case platform dep of None \<Rightarrow> {}
             | Some p \<Rightarrow> draw_bitmap {}
                 (256 - int ws - cached_width R c (platform_label p) ?f - 5)
                 y_pos (cached_bitmap R c (platform_label p) ?f))" if "cache_le c3 c" for c
        using cached_stable[OF wf2 g3 that] Some by simp
    qed
  qed
  have le13: "cache_le c1 c3" using le12 le23 by (rule cache_le_trans)
  \<comment> \<open>the calling-at block\<close>
  define d3 where "d3 = draw \<union> draw_bitmap {} 0 y_pos (objects c1 ! r) \<union>
                  draw_bitmap {} (256 - int ws) y_pos (objects c2 ! rs) \<union> P"
  note plat' = plat[folded d3_def]
  obtain cF where
    res: "draw_departure_row R b draw dep y_pos fnt show_calling =
            ((if show_calling
              then scroll_advance (cached_width R cF (calling_at_list dep) ?f)
                     (cached_height R cF (calling_at_list dep) ?f) (b\<lparr>bitmap_cache := cF\<rparr>)
              else b\<lparr>bitmap_cache := cF\<rparr>),
             d3 \<union>
               (if show_calling then
                  draw_bitmap {} 0 (y_pos + 12) (cached_bitmap R cF ''Calling at: '' ?f) \<union>
                  scroll_blit R cF b (calling_at_list dep) (cached_width R cF ''Calling at: '' ?f)
                    (y_pos + 12) (256 - cached_width R cF ''Calling at: '' ?f)
                else {}))"
    and le3F: "cache_le c3 cF"
  proof (cases show_calling)
    case False
    show ?thesis
      by (rule that[of c3]) (simp_all add: draw_departure_row_alt g1 g2 plat' False cache_le_refl)
  next
    case True
    obtain wc hc rc c4 where g4: "get_bitmap R c3 ''Calling at: '' ?f = ((wc, hc, rc), c4)"
      by (metis prod_cases3 surj_pair)
    have le34: "cache_le c3 c4" using g4 by (rule get_bitmap_le)
    have wf4: "wf_cache c4" using wf3 g4 by (rule get_bitmap_wf)
    define d4 where "d4 = draw_bitmap d3 0 (y_pos + 12) (objects c4 ! rc)"
    obtain c5 where
      sc: "draw_scrolling_text R (b\<lparr>bitmap_cache := c4\<rparr>) d4 (calling_at_list dep)
             (int wc) (y_pos + 12) (256 - int wc) =
           (scroll_advance (cached_width R c5 (calling_at_list dep) ?f)
              (cached_height R c5 (calling_at_list dep) ?f) (b\<lparr>bitmap_cache := c5\<rparr>),
            d4 \<union> scroll_blit R c5 (b\<lparr>bitmap_cache := c4\<rparr>) (calling_at_list dep)
              (int wc) (y_pos + 12) (256 - int wc))"
      and le45: "cache_le c4 c5"
      using draw_scrolling_text_eq[of "b\<lparr>bitmap_cache := c4\<rparr>" R d4 "calling_at_list dep"
          "int wc" "y_pos + 12" "256 - int wc"] wf4
      by auto
    have st4: "cached_width R c5 ''Calling at: '' ?f = int wc"
      "cached_bitmap R c5 ''Calling at: '' ?f = objects c4 ! rc"
      using cached_stable[OF wf3 g4 le45] by simp_all
    have sb: "scroll_blit R c5 (b\<lparr>bitmap_cache := c4\<rparr>) = scroll_blit R c5 b"
      by (intro ext) (simp add: scroll_blit_def)
    have d4: "d4 = d3 \<union> draw_bitmap {} 0 (y_pos + 12) (objects c4 ! rc)"
      unfolding d4_def by (rule draw_bitmap_union)
    have "draw_departure_row R b draw dep y_pos fnt show_calling =
          draw_scrolling_text R (b\<lparr>bitmap_cache := c4\<rparr>) d4 (calling_at_list dep)
             (int wc) (y_pos + 12) (256 - int wc)"
      by (simp add: draw_departure_row_alt g1 g2 plat' g4 True d4_def)
    also have "\<dots> = (scroll_advance (cached_width R c5 (calling_at_list dep) ?f)
              (cached_height R c5 (calling_at_list dep) ?f) (b\<lparr>bitmap_cache := c5\<rparr>),
            d3 \<union> (draw_bitmap {} 0 (y_pos + 12) (objects c4 ! rc) \<union>
              scroll_blit R c5 b (calling_at_list dep) (int wc) (y_pos + 12) (256 - int wc)))"
      by (subst sc) (simp add: sb d4 Un_assoc)
    finally show ?thesis
      using that[of c5] cache_le_trans[OF le34 le45] True by (simp add: st4)
  qed
  have cF: "bitmap_cache (fst (draw_departure_row R b draw dep y_pos fnt show_calling)) = cF"
    unfolding res by simp
  have le2F: "cache_le c2 cF" using le23 le3F by (rule cache_le_trans)
  have le1F: "cache_le c1 cF" using le12 le2F by (rule cache_le_trans)
  have s1: "cached_bitmap R cF (row_label (config b) dep y_pos) fnt = objects c1 ! r"
    using cached_stable[OF wf g1 le1F] by simp
  have s2: "cached_width R cF (get_status_text dep) ?f = int ws"
    "cached_bitmap R cF (get_status_text dep) ?f = objects c2 ! rs"
    using cached_stable[OF wf1 g2 le2F] by simp_all
  show ?thesis
    unfolding res d3_def using P[OF le3F]
    by (auto simp: row_image_def s1 s2 split: option.splits)
qed


theorem platform_label_placement_witness:
  "wf_cache (bitmap_cache sample_board) \<and>
   platform sample_departure = Some ''4'' \<and> platform_label ''4'' = ''Plat 4'' \<and>
   platform_label ''bUs'' = ''BUS'' \<and>
   (case draw_departure_row sample_rasteriser sample_board {} sample_departure 0 sample_font_bold True of
      (b', draw') \<Rightarrow>
        draw' = {} \<union> row_image sample_rasteriser (bitmap_cache b') sample_board sample_departure 0
                  sample_font_bold True \<union>
          draw_bitmap {}
            (256 - cached_width sample_rasteriser (bitmap_cache b') (get_status_text sample_departure)
                     (font sample_board)
                 - cached_width sample_rasteriser (bitmap_cache b') (platform_label ''4'')
                     (font sample_board) - 5)
            0 (cached_bitmap sample_rasteriser (bitmap_cache b') (platform_label ''4'') (font sample_board))) \<and>
   platform (sample_departure\<lparr>platform := None\<rparr>) = None \<and>
   (case draw_departure_row sample_rasteriser sample_board {} (sample_departure\<lparr>platform := None\<rparr>) 24
           sample_font False of
      (b', draw') \<Rightarrow>
        draw' = {} \<union> row_image sample_rasteriser (bitmap_cache b') sample_board
                  (sample_departure\<lparr>platform := None\<rparr>) 24 sample_font False) \<and>
   (236, 0) \<in> snd (draw_departure_row sample_rasteriser sample_board {} sample_departure 0
                     sample_font_bold True) \<and>
   (241, 0) \<in> snd (draw_departure_row sample_rasteriser sample_board {} sample_departure 0
                     sample_font_bold True) \<and>
   (242, 0) \<notin> snd (draw_departure_row sample_rasteriser sample_board {} sample_departure 0
                     sample_font_bold True) \<and>
   (241, 24) \<notin> snd (draw_departure_row sample_rasteriser sample_board {}
                      (sample_departure\<lparr>platform := None\<rparr>) 24 sample_font False)"
proof -
  have wf: "wf_cache (bitmap_cache sample_board)"
    by (simp add: wf_cache_def sample_board_def init_board_def)
  have some: "platform sample_departure = Some ''4''"
    by (simp add: sample_departure_def)
  have none: "platform (sample_departure\<lparr>platform := None\<rparr>) = None"
    by simp
  have labels: "platform_label ''4'' = ''Plat 4''" "platform_label ''bUs'' = ''BUS''"
    by (simp_all add: platform_label_def bus_spellings_def)
  have p1: "(236, 0) \<in> snd (draw_departure_row sample_rasteriser sample_board {} sample_departure 0
                     sample_font_bold True)"
    by code_simp
  have p2: "(241, 0) \<in> snd (draw_departure_row sample_rasteriser sample_board {} sample_departure 0
                     sample_font_bold True)"
    by code_simp
  have p3: "(242, 0) \<notin> snd (draw_departure_row sample_rasteriser sample_board {} sample_departure 0
                     sample_font_bold True)"
    by code_simp
  have p4: "(241, 24) \<notin> snd (draw_departure_row sample_rasteriser sample_board {}
                      (sample_departure\<lparr>platform := None\<rparr>) 24 sample_font False)"
    by code_simp
  have a: "case draw_departure_row sample_rasteriser sample_board {} sample_departure 0 sample_font_bold True of
      (b', draw') \<Rightarrow>
        draw' = {} \<union> row_image sample_rasteriser (bitmap_cache b') sample_board sample_departure 0
                  sample_font_bold True \<union>
          draw_bitmap {}
            (256 - cached_width sample_rasteriser (bitmap_cache b') (get_status_text sample_departure)
                     (font sample_board)
                 - cached_width sample_rasteriser (bitmap_cache b') (platform_label ''4'')
                     (font sample_board) - 5)
            0 (cached_bitmap sample_rasteriser (bitmap_cache b') (platform_label ''4'') (font sample_board))"
    using platform_label_placement[OF wf, where R = sample_rasteriser and draw = "{}"
        and dep = sample_departure and y_pos = 0 and fnt = sample_font_bold and show_calling = True]
    unfolding some by simp
  have b: "case draw_departure_row sample_rasteriser sample_board {} (sample_departure\<lparr>platform := None\<rparr>) 24
           sample_font False of
      (b', draw') \<Rightarrow>
        draw' = {} \<union> row_image sample_rasteriser (bitmap_cache b') sample_board
                  (sample_departure\<lparr>platform := None\<rparr>) 24 sample_font False"
    using platform_label_placement[OF wf, where R = sample_rasteriser and draw = "{}"
        and dep = "sample_departure\<lparr>platform := None\<rparr>" and y_pos = 24 and fnt = sample_font
        and show_calling = False]
    unfolding none by simp
  show ?thesis
    using wf some none labels p1 p2 p3 p4 a b by blast
qed

end
